theory Spec2Isabelle
  imports Main "HOL-Library.Sublist"
begin

section \<open>The chat container of src/components/ChatContainer.tsx\<close>

text \<open>
  The component keeps its state in React state variables and one ref holding the socket.
  The model is a record of those variables together with the three pieces of the
  environment the component writes to: the \<open>chatSessionId\<close> key of the local storage,
  the calls made on the socket library, and the HTTP requests that have been issued and
  have not settled yet.

  Every function of the component is a function from state to state. An \<open>async\<close>
  function is cut at its \<open>await\<close>: the part before it issues the request, the part
  after it (\<open>..._settled\<close>) runs when the request settles and receives the outcome.
  JavaScript runs one handler at a time, so each part is atomic.

  A state setter writes the state at once, but a function of the component reads a state
  variable through the closure of the render that created it. The functions that the view
  calls (\<open>sendMessage\<close>, \<open>clearChat\<close>, \<open>retryConnection\<close>, \<open>toggleSidebar\<close>) are
  those of the last committed render, so they read \<open>sessionId\<close> and \<open>isSidebarOpen\<close> as
  they were at that render. The record keeps these two values apart
  (\<open>rendered_sessionId\<close>, \<open>rendered_isSidebarOpen\<close>), and a render is an event of its
  own that commits the current values. The listeners are those of the first render; they
  read no state variable. \<open>socketRef\<close> is a ref and is always read as it is.

  Strings are \<open>string\<close>; characters are the code units below 256. The values the
  environment supplies (\<open>uuidv4()\<close>, \<open>new Date().toISOString()\<close>, the outcome of a
  request) are parameters. Local storage is taken to be available.
\<close>

subsection \<open>Data\<close>

text \<open>
  Modelled from the spec: the type \<open>Message\<close> of \<open>../types/chat\<close>, which is not among
  the sources. It has a role (user or assistant), a content, a timestamp and a completion
  flag. The flag is optional: \<open>sendMessage\<close> builds a \<open>Message\<close> without it.
\<close>

datatype Role = User | Assistant

record Message =
  role :: Role
  content :: string
  timestamp :: string
  isComplete :: "bool option"

datatype ChatStatusType = Idle | Typing | Processing

record ChatStatus =
  status_type :: ChatStatusType
  status_message :: "string option"

record Session =
  session_sessionId :: string
  lastMessage :: string
  session_timestamp :: string

text \<open>The socket held by \<open>socketRef\<close>: the session id of its query, and whether the
  event listeners of the component have been registered on it.\<close>

record Socket =
  query_sessionId :: string
  listening :: bool

text \<open>The calls the component makes on the socket library, in order.\<close>

datatype transport_call =
    Io string
  | Disconnect_call
  | Connect_call
  | Emit_message string string

text \<open>The requests of the component: \<open>GET /session\<close>, \<open>GET /chat/sid\<close> (the flag
  says that \<open>switchSession\<close> awaits it) and \<open>DELETE /chat/sid\<close>.\<close>

datatype request =
    Get_sessions
  | Get_chat string bool
  | Delete_chat string

record chat_container =
  messages :: "Message list"
  sessionId :: string
  isLoading :: bool
  isHistoryLoading :: bool
  error :: "string option"
  streamedMessage :: "Message option"
  status :: ChatStatus
  sessions :: "Session list"
  isSidebarOpen :: bool
  socketRef :: "Socket option"
  localStorage :: "string option"
  transport :: "transport_call list"
  inflight :: "request list"
  rendered_sessionId :: string
  rendered_isSidebarOpen :: bool

text \<open>The state of the first render, over the stored session id found at start.\<close>

definition initial_state :: "string option \<Rightarrow> chat_container" where
  "initial_state stored =
     \<lparr> messages = [], sessionId = [], isLoading = False, isHistoryLoading = True,
       error = None, streamedMessage = None,
       status = \<lparr> status_type = Idle, status_message = None \<rparr>,
       sessions = [], isSidebarOpen = False, socketRef = None,
       localStorage = stored, transport = [], inflight = [],
       rendered_sessionId = [], rendered_isSidebarOpen = False \<rparr>"

subsection \<open>Requests with a timeout\<close>

record 'a response =
  resp_status :: nat
  resp_body :: "'a option"

text \<open>What \<open>fetch\<close> does with a request: the timer aborts it, the network fails, or a
  response arrives. The body of a response is \<open>None\<close> when \<open>response.json()\<close> rejects
  or the parsed value has no fields to read.\<close>

datatype 'a fetch_outcome =
    Aborted
  | Network_failed
  | Responded "'a response"

datatype fetch_error =
    Abort_error
  | Network_error
  | Http_error nat
  | Json_error

definition ok :: "'a response \<Rightarrow> bool" where
  "ok r = (200 \<le> resp_status r \<and> resp_status r \<le> 299)"

definition fetchWithTimeout :: "'a fetch_outcome \<Rightarrow> fetch_error + 'a response" where
  "fetchWithTimeout out =
     (case out of
        Aborted \<Rightarrow> Inl Abort_error
      | Network_failed \<Rightarrow> Inl Network_error
      | Responded r \<Rightarrow> if \<not> ok r then Inl (Http_error (resp_status r)) else Inr r)"

definition json :: "'a response \<Rightarrow> fetch_error + 'a" where
  "json r = (case resp_body r of None \<Rightarrow> Inl Json_error | Some data \<Rightarrow> Inr data)"

text \<open>\<open>x || []\<close> on a field that may be missing.\<close>

definition or_empty :: "'a list option \<Rightarrow> 'a list" where
  "or_empty field = (case field of None \<Rightarrow> [] | Some xs \<Rightarrow> xs)"

subsection \<open>Strings\<close>

text \<open>
  \<open>String.prototype.trim\<close> removes white space and line terminators from both ends.
  Among the code units below 256 these are tab, line feed, vertical tab, form feed,
  carriage return, space and the no-break space. A string is falsy when it is empty, so
  \<open>!content.trim()\<close> is \<open>trim content = []\<close>. \<open>decimal\<close> prints a number as the
  template literal of \<open>reconnect_attempt\<close> does.
\<close>

definition isWhiteSpace :: "char \<Rightarrow> bool" where
  "isWhiteSpace c = (of_char c \<in> set [9, 10, 11, 12, 13, 32, 160 :: nat])"

definition trim :: "string \<Rightarrow> string" where
  "trim s = rev (dropWhile isWhiteSpace (rev (dropWhile isWhiteSpace s)))"

fun decimal :: "nat \<Rightarrow> string" where
  "decimal n =
     (if n < 10 then [char_of (48 + n)]
      else decimal (n div 10) @ [char_of (48 + n mod 10)])"

declare decimal.simps [simp del]

subsection \<open>Fetching the session list and the transcript\<close>

definition fetchSessions :: "chat_container \<Rightarrow> chat_container" where
  "fetchSessions st =
     st\<lparr> isHistoryLoading := True, inflight := inflight st @ [Get_sessions] \<rparr>"

definition fetchSessions_settled ::
  "Session list option fetch_outcome \<Rightarrow> chat_container \<Rightarrow> chat_container" where
  "fetchSessions_settled out st =
     (let st' =
        (case fetchWithTimeout out of
           Inl e \<Rightarrow> st\<lparr> sessions := [], error := Some ''No chat sessions available.'' \<rparr>
         | Inr response \<Rightarrow>
            (case json response of
               Inl e \<Rightarrow> st\<lparr> sessions := [], error := Some ''No chat sessions available.'' \<rparr>
             | Inr data \<Rightarrow> st\<lparr> sessions := or_empty data \<rparr>))
      in st'\<lparr> isHistoryLoading := False \<rparr>)"

definition fetchChatHistory :: "string \<Rightarrow> bool \<Rightarrow> chat_container \<Rightarrow> chat_container" where
  "fetchChatHistory sid awaited st =
     st\<lparr> isHistoryLoading := True, error := None,
         inflight := inflight st @ [Get_chat sid awaited] \<rparr>"

definition fetchChatHistory_settled ::
  "Message list option fetch_outcome \<Rightarrow> chat_container \<Rightarrow> chat_container" where
  "fetchChatHistory_settled out st =
     (let st' =
        (case fetchWithTimeout out of
           Inl e \<Rightarrow>
             st\<lparr> error := Some ''Unable to load chat history. Please try again later.'' \<rparr>
         | Inr response \<Rightarrow>
            (case json response of
               Inl e \<Rightarrow>
                 st\<lparr> error := Some ''Unable to load chat history. Please try again later.'' \<rparr>
             | Inr data \<Rightarrow> st\<lparr> messages := or_empty data \<rparr>))
      in st'\<lparr> isHistoryLoading := False \<rparr>)"

subsection \<open>The mount effect and the socket listeners\<close>

definition mount :: "string \<Rightarrow> chat_container \<Rightarrow> chat_container" where
  "mount uuid st =
     (let storedSessionId = localStorage st;
          falsy = (storedSessionId = None \<or> storedSessionId = Some []);
          currentSessionId =
            (case storedSessionId of
               None \<Rightarrow> uuid
             | Some stored \<Rightarrow> if stored = [] then uuid else stored);
          st1 = (if falsy then st\<lparr> localStorage := Some currentSessionId \<rparr> else st);
          st2 = st1\<lparr> sessionId := currentSessionId,
                     socketRef := Some \<lparr> query_sessionId = currentSessionId, listening = True \<rparr>,
                     transport := transport st1 @ [Io currentSessionId] \<rparr>
      in fetchSessions (fetchChatHistory currentSessionId False st2))"

definition on_connect :: "chat_container \<Rightarrow> chat_container" where
  "on_connect st = st\<lparr> error := None \<rparr>"

definition on_connect_error :: "chat_container \<Rightarrow> chat_container" where
  "on_connect_error st =
     st\<lparr> error := Some (''Unable to connect to chat server. The server might be '' @
                        ''temporarily unavailable. Please try again later.'') \<rparr>"

definition on_connect_timeout :: "chat_container \<Rightarrow> chat_container" where
  "on_connect_timeout st =
     st\<lparr> error := Some (''Connection timed out. Please check your internet '' @
                        ''connection and try again.'') \<rparr>"

definition on_reconnect_attempt :: "nat \<Rightarrow> chat_container \<Rightarrow> chat_container" where
  "on_reconnect_attempt attemptNumber st =
     st\<lparr> error := Some (''Attempting to reconnect to server... (Attempt '' @
                        decimal attemptNumber @ '')'') \<rparr>"

definition on_reconnect_failed :: "chat_container \<Rightarrow> chat_container" where
  "on_reconnect_failed st =
     st\<lparr> error := Some (''Unable to reconnect to the server. Please refresh the page '' @
                        ''or try again later.'') \<rparr>"

definition on_session :: "string \<Rightarrow> chat_container \<Rightarrow> chat_container" where
  "on_session data_sessionId st =
     st\<lparr> sessionId := data_sessionId, localStorage := Some data_sessionId \<rparr>"

definition on_message :: "Message \<Rightarrow> chat_container \<Rightarrow> chat_container" where
  "on_message message st =
     (if isComplete message = Some True
      then fetchSessions
             (st\<lparr> streamedMessage := None, messages := messages st @ [message],
                  isLoading := False \<rparr>)
      else st)"

definition on_message_stream :: "Message \<Rightarrow> chat_container \<Rightarrow> chat_container" where
  "on_message_stream message st = st\<lparr> streamedMessage := Some message \<rparr>"

definition on_status :: "ChatStatus \<Rightarrow> chat_container \<Rightarrow> chat_container" where
  "on_status newStatus st = st\<lparr> status := newStatus \<rparr>"

definition on_error :: "chat_container \<Rightarrow> chat_container" where
  "on_error st =
     st\<lparr> error := Some (''An error occurred with the chat connection. '' @
                        ''Please try again later.''),
         isLoading := False,
         status := \<lparr> status_type = Idle, status_message = None \<rparr> \<rparr>"

subsection \<open>The operations offered to the view\<close>

definition sendMessage :: "string \<Rightarrow> string \<Rightarrow> chat_container \<Rightarrow> chat_container" where
  "sendMessage content' now st =
     (if trim content' = [] \<or> socketRef st = None then st
      else
        (let userMessage =
               \<lparr> role = User, content = content', timestamp = now, isComplete = None \<rparr>
         in st\<lparr> messages := messages st @ [userMessage], isLoading := True, error := None,
                transport :=
                  transport st @ [Emit_message content' (rendered_sessionId st)] \<rparr>))"

definition clearChat :: "chat_container \<Rightarrow> chat_container" where
  "clearChat st = st\<lparr> inflight := inflight st @ [Delete_chat (rendered_sessionId st)] \<rparr>"

definition clearChat_settled :: "unit fetch_outcome \<Rightarrow> chat_container \<Rightarrow> chat_container" where
  "clearChat_settled out st =
     (case fetchWithTimeout out of
        Inl e \<Rightarrow> st\<lparr> error := Some ''Failed to clear chat history. Please try again.'' \<rparr>
      | Inr response \<Rightarrow>
          if \<not> ok response
          then st\<lparr> error := Some ''Failed to clear chat history. Please try again.'' \<rparr>
          else fetchSessions (st\<lparr> messages := [], streamedMessage := None, error := None \<rparr>))"

text \<open>Both \<open>createNewSession\<close> and \<open>switchSession\<close> replace the socket by a new one
  on which no listener is registered.\<close>

definition reconnect_socket :: "string \<Rightarrow> chat_container \<Rightarrow> chat_container" where
  "reconnect_socket sid st =
     (if socketRef st = None then st
      else st\<lparr> socketRef := Some \<lparr> query_sessionId = sid, listening = False \<rparr>,
               transport := transport st @ [Disconnect_call, Io sid] \<rparr>)"

definition createNewSession :: "string \<Rightarrow> chat_container \<Rightarrow> chat_container" where
  "createNewSession newSessionId st =
     (let st1 = st\<lparr> localStorage := None \<rparr>;
          st2 = st1\<lparr> localStorage := Some newSessionId, sessionId := newSessionId \<rparr>;
          st3 = reconnect_socket newSessionId st2
      in fetchSessions (st3\<lparr> messages := [], streamedMessage := None, error := None \<rparr>))"

definition switchSession :: "string \<Rightarrow> chat_container \<Rightarrow> chat_container" where
  "switchSession newSessionId st =
     (let st1 = st\<lparr> localStorage := Some newSessionId, sessionId := newSessionId \<rparr>;
          st2 = reconnect_socket newSessionId st1
      in fetchChatHistory newSessionId True st2)"

definition switchSession_resumed :: "chat_container \<Rightarrow> chat_container" where
  "switchSession_resumed st = st\<lparr> isSidebarOpen := False \<rparr>"

definition retryConnection :: "chat_container \<Rightarrow> chat_container" where
  "retryConnection st =
     (if socketRef st = None then st
      else fetchChatHistory (rendered_sessionId st) False
             (st\<lparr> transport := transport st @ [Connect_call] \<rparr>))"

definition toggleSidebar :: "chat_container \<Rightarrow> chat_container" where
  "toggleSidebar st = st\<lparr> isSidebarOpen := \<not> rendered_isSidebarOpen st \<rparr>"

text \<open>A render commits the state: the functions handed to the view from now on read the
  current \<open>sessionId\<close> and \<open>isSidebarOpen\<close>.\<close>

definition render :: "chat_container \<Rightarrow> chat_container" where
  "render st =
     st\<lparr> rendered_sessionId := sessionId st, rendered_isSidebarOpen := isSidebarOpen st \<rparr>"

subsection \<open>Events and runs\<close>

text \<open>
  Everything that can happen to the mounted component: the mount effect, a render, an
  event of the current socket, a call from the view, or a request that settles. A socket
  event reaches a listener only when the current socket has listeners; a request can
  settle only while it is in flight, and then leaves the list.
\<close>

datatype event =
    Mount string
  | Render
  | Connect
  | Connect_error
  | Connect_timeout
  | Reconnect_attempt nat
  | Reconnect_failed
  | Session_assigned string
  | Message_final Message
  | Message_delta Message
  | Activity_status ChatStatus
  | Channel_error
  | Send_message string string
  | Clear_chat
  | New_session string
  | Switch_session string
  | Retry_connection
  | Toggle_sidebar
  | Sessions_settled "Session list option fetch_outcome"
  | History_settled string bool "Message list option fetch_outcome"
  | Delete_settled string "unit fetch_outcome"

definition heard :: "chat_container \<Rightarrow> bool" where
  "heard st = (case socketRef st of None \<Rightarrow> False | Some s \<Rightarrow> listening s)"

definition settle ::
  "request \<Rightarrow> (chat_container \<Rightarrow> chat_container) \<Rightarrow> chat_container \<Rightarrow> chat_container" where
  "settle r k st =
     (if r \<in> set (inflight st) then k (st\<lparr> inflight := remove1 r (inflight st) \<rparr>) else st)"

fun step :: "event \<Rightarrow> chat_container \<Rightarrow> chat_container" where
  "step (Mount uuid) st = (if socketRef st = None then mount uuid st else st)"
| "step Render st = render st"
| "step Connect st = (if heard st then on_connect st else st)"
| "step Connect_error st = (if heard st then on_connect_error st else st)"
| "step Connect_timeout st = (if heard st then on_connect_timeout st else st)"
| "step (Reconnect_attempt n) st = (if heard st then on_reconnect_attempt n st else st)"
| "step Reconnect_failed st = (if heard st then on_reconnect_failed st else st)"
| "step (Session_assigned sid) st = (if heard st then on_session sid st else st)"
| "step (Message_final m) st = (if heard st then on_message m st else st)"
| "step (Message_delta m) st = (if heard st then on_message_stream m st else st)"
| "step (Activity_status s) st = (if heard st then on_status s st else st)"
| "step Channel_error st = (if heard st then on_error st else st)"
| "step (Send_message text now) st = sendMessage text now st"
| "step Clear_chat st = clearChat st"
| "step (New_session uuid) st = createNewSession uuid st"
| "step (Switch_session sid) st = switchSession sid st"
| "step Retry_connection st = retryConnection st"
| "step Toggle_sidebar st = toggleSidebar st"
| "step (Sessions_settled out) st = settle Get_sessions (fetchSessions_settled out) st"
| "step (History_settled sid awaited out) st =
     settle (Get_chat sid awaited)
       (\<lambda>s. if awaited then switchSession_resumed (fetchChatHistory_settled out s)
            else fetchChatHistory_settled out s) st"
| "step (Delete_settled sid out) st = settle (Delete_chat sid) (clearChat_settled out) st"

definition run :: "event list \<Rightarrow> chat_container \<Rightarrow> chat_container" where
  "run evs st = fold step evs st"


subsection \<open>Notions used by the properties\<close>







subsection \<open>Sample values\<close>

definition reply_A :: Message where
  "reply_A = \<lparr> role = Assistant, content = ''old'', timestamp = ''t1'',
               isComplete = Some True \<rparr>"

definition reply_B :: Message where
  "reply_B = \<lparr> role = Assistant, content = ''new'', timestamp = ''t2'',
               isComplete = Some True \<rparr>"

definition partial_reply :: Message where
  "partial_reply = \<lparr> role = Assistant, content = ''ne'', timestamp = ''t2'',
                     isComplete = Some False \<rparr>"

definition question :: Message where
  "question = \<lparr> role = User, content = ''hi'', timestamp = ''t0'', isComplete = None \<rparr>"

definition typing :: ChatStatus where
  "typing = \<lparr> status_type = Typing, status_message = None \<rparr>"

definition session_A :: Session where
  "session_A = \<lparr> session_sessionId = ''A'', lastMessage = ''old'',
                 session_timestamp = ''t1'' \<rparr>"

definition answered :: "'a \<Rightarrow> 'a fetch_outcome" where
  "answered data = Responded \<lparr> resp_status = 200, resp_body = Some data \<rparr>"

definition refused :: "nat \<Rightarrow> 'a fetch_outcome" where
  "refused code = Responded \<lparr> resp_status = code, resp_body = None \<rparr>"

text \<open>The component after the mount effect and the render that follows it, with nothing
  stored before.\<close>

definition mounted_A :: chat_container where
  "mounted_A = run [Mount ''A'', Render] (initial_state None)"

text \<open>The same after the history of session A has arrived.\<close>

definition chatting_A :: chat_container where
  "chatting_A = run [History_settled ''A'' False (answered (Some [reply_A]))] mounted_A"

text \<open>The user switches to session B while the history of A is still awaited, and the
  history of B arrives first.\<close>

definition overtaken :: chat_container where
  "overtaken =
     run [Switch_session ''B'', History_settled ''B'' True (answered (Some [reply_B]))]
       mounted_A"

section \<open>Properties\<close>

subsection \<open>Auxiliary facts\<close>

lemmas listener_defs =
  on_connect_def on_connect_error_def on_connect_timeout_def on_reconnect_attempt_def
  on_reconnect_failed_def on_session_def on_message_def on_message_stream_def
  on_status_def on_error_def

lemmas operation_defs =
  sendMessage_def clearChat_def createNewSession_def switchSession_def
  switchSession_resumed_def retryConnection_def toggleSidebar_def reconnect_socket_def
  fetchSessions_def fetchChatHistory_def mount_def render_def

lemmas settled_defs =
  settle_def fetchSessions_settled_def fetchChatHistory_settled_def clearChat_settled_def
  fetchWithTimeout_def json_def ok_def or_empty_def

lemmas sample_defs =
  reply_A_def reply_B_def partial_reply_def question_def answered_def refused_def
  typing_def session_A_def

lemma all_dropWhile: "(\<forall>x\<in>set (dropWhile P xs). P x) = (\<forall>x\<in>set xs. P x)"
  by (induction xs) auto

lemma trim_blank: "(trim s = []) = (\<forall>c\<in>set s. isWhiteSpace c)"
  by (simp add: trim_def all_dropWhile)

lemma trim_hi: "trim ''hi'' \<noteq> []"
  by (simp add: trim_def isWhiteSpace_def)

text \<open>The sample states, computed.\<close>

lemma mounted_A_eq:
  "mounted_A =
     \<lparr> messages = [], sessionId = ''A'', isLoading = False, isHistoryLoading = True,
       error = None, streamedMessage = None,
       status = \<lparr> status_type = Idle, status_message = None \<rparr>,
       sessions = [], isSidebarOpen = False,
       socketRef = Some \<lparr> query_sessionId = ''A'', listening = True \<rparr>,
       localStorage = Some ''A'', transport = [Io ''A''],
       inflight = [Get_chat ''A'' False, Get_sessions],
       rendered_sessionId = ''A'', rendered_isSidebarOpen = False \<rparr>"
  by (simp add: mounted_A_def run_def initial_state_def operation_defs Let_def)

lemma chatting_A_eq:
  "chatting_A =
     \<lparr> messages = [reply_A], sessionId = ''A'', isLoading = False, isHistoryLoading = False,
       error = None, streamedMessage = None,
       status = \<lparr> status_type = Idle, status_message = None \<rparr>,
       sessions = [], isSidebarOpen = False,
       socketRef = Some \<lparr> query_sessionId = ''A'', listening = True \<rparr>,
       localStorage = Some ''A'', transport = [Io ''A''],
       inflight = [Get_sessions],
       rendered_sessionId = ''A'', rendered_isSidebarOpen = False \<rparr>"
  by (simp add: chatting_A_def run_def mounted_A_eq settled_defs answered_def Let_def)

lemma overtaken_eq:
  "overtaken =
     \<lparr> messages = [reply_B], sessionId = ''B'', isLoading = False, isHistoryLoading = False,
       error = None, streamedMessage = None,
       status = \<lparr> status_type = Idle, status_message = None \<rparr>,
       sessions = [], isSidebarOpen = False,
       socketRef = Some \<lparr> query_sessionId = ''B'', listening = False \<rparr>,
       localStorage = Some ''B'', transport = [Io ''A'', Disconnect_call, Io ''B''],
       inflight = [Get_chat ''A'' False, Get_sessions],
       rendered_sessionId = ''A'', rendered_isSidebarOpen = False \<rparr>"
  by (simp add: overtaken_def run_def mounted_A_eq settled_defs operation_defs answered_def
      Let_def)

text \<open>Once the mount effect has run there is a socket, and no step takes it away.\<close>

lemma mount_opens_socket: "socketRef (mount uuid st) \<noteq> None"
  by (simp add: operation_defs Let_def)

lemma step_keeps_socket: "socketRef st \<noteq> None \<Longrightarrow> socketRef (step ev st) \<noteq> None"
  by (cases ev)
    (auto simp: listener_defs operation_defs settle_def fetchSessions_settled_def
      fetchChatHistory_settled_def clearChat_settled_def Let_def split: sum.splits)

lemma run_keeps_socket: "socketRef st \<noteq> None \<Longrightarrow> socketRef (run evs st) \<noteq> None"
  unfolding run_def
proof (induction evs arbitrary: st)
  case Nil
  then show ?case by simp
next
  case (Cons e es)
  from Cons.prems have "socketRef (step e st) \<noteq> None"
    by (rule step_keeps_socket)
  then have "socketRef (fold step es (step e st)) \<noteq> None"
    by (rule Cons.IH)
  then show ?case by simp
qed




text \<open>The listeners are registered on the socket of the mount effect. The socket that
  \<open>switchSession\<close> or \<open>createNewSession\<close> puts in its place has none, so the events
  of that socket reach no listener.\<close>

lemma replaced_socket_unheard:
  "socketRef st \<noteq> None \<Longrightarrow>
   \<not> heard (switchSession sid st) \<and> \<not> heard (createNewSession uuid st)"
  by (simp add: heard_def operation_defs Let_def)

lemma unheard_event_dropped:
  "\<not> heard st \<Longrightarrow>
   step (Message_final m) st = st \<and> step (Message_delta m) st = st \<and>
   step (Session_assigned sid) st = st \<and> step Channel_error st = st"
  by simp

lemma heard_event_handled:
  "heard st \<Longrightarrow>
   step (Message_final m) st = on_message m st \<and>
   step (Message_delta m) st = on_message_stream m st \<and>
   step (Session_assigned sid) st = on_session sid st \<and>
   step Channel_error st = on_error st"
  by simp

subsection \<open>Submitting text\<close>

text \<open>
  C6. A submission that is empty or holds white space only changes nothing: no message
  is appended, nothing is emitted, and the rest of the state is the same. In every state
  of the mounted component (the mount effect has run, whatever happened afterwards) a
  submission with some other character appends the user's message to the transcript at
  once, in the same step, sets the loading flag, and emits the text with the session id
  of the last render.
\<close>

theorem blank_submission_ignored:
  "((\<forall>c\<in>set text. isWhiteSpace c) \<longrightarrow> sendMessage text now st = st) \<and>
   ((\<exists>c\<in>set text. \<not> isWhiteSpace c) \<longrightarrow>
      messages (sendMessage text now (run evs (mount uuid (initial_state stored)))) =
        messages (run evs (mount uuid (initial_state stored))) @
          [\<lparr> role = User, content = text, timestamp = now, isComplete = None \<rparr>] \<and>
      isLoading (sendMessage text now (run evs (mount uuid (initial_state stored)))) = True \<and>
      transport (sendMessage text now (run evs (mount uuid (initial_state stored)))) =
        transport (run evs (mount uuid (initial_state stored))) @
          [Emit_message text
             (rendered_sessionId (run evs (mount uuid (initial_state stored))))])"
proof -
  have sock: "socketRef (run evs (mount uuid (initial_state stored))) \<noteq> None"
    by (rule run_keeps_socket) (rule mount_opens_socket)
  have blank: "(\<forall>c\<in>set text. isWhiteSpace c) \<longrightarrow> sendMessage text now st = st"
    by (simp add: sendMessage_def trim_blank)
  have busy: "(\<exists>c\<in>set text. \<not> isWhiteSpace c) \<Longrightarrow> trim text \<noteq> []"
    by (simp add: trim_blank)
  show ?thesis
    using sock blank busy by (auto simp: sendMessage_def Let_def)
qed

theorem blank_submission_ignored_witness:
  "isWhiteSpace CHR '' '' \<and> isWhiteSpace CHR 0x09 \<and>
   sendMessage [CHR '' '', CHR 0x09] ''t0'' chatting_A = chatting_A \<and>
   \<not> isWhiteSpace CHR ''h'' \<and>
   messages (sendMessage ''hi'' ''t0''
       (run [Render, History_settled ''A'' False (answered (Some [reply_A]))]
          (mount ''A'' (initial_state None)))) = [reply_A, question] \<and>
   isLoading (sendMessage ''hi'' ''t0''
       (run [Render, History_settled ''A'' False (answered (Some [reply_A]))]
          (mount ''A'' (initial_state None)))) = True \<and>
   transport (sendMessage ''hi'' ''t0''
       (run [Render, History_settled ''A'' False (answered (Some [reply_A]))]
          (mount ''A'' (initial_state None)))) = [Io ''A'', Emit_message ''hi'' ''A'']"
proof -
  have st: "run [Render, History_settled ''A'' False (answered (Some [reply_A]))]
              (mount ''A'' (initial_state None)) = chatting_A"
    by (simp add: chatting_A_def mounted_A_def run_def initial_state_def)
  show ?thesis
    using blank_submission_ignored [of "[CHR '' '', CHR 0x09]" "''t0''" chatting_A
        "[Render, History_settled ''A'' False (answered (Some [reply_A]))]" "''A''" None]
      blank_submission_ignored [of "''hi''" "''t0''" chatting_A
        "[Render, History_settled ''A'' False (answered (Some [reply_A]))]" "''A''" None]
    by (simp add: st chatting_A_eq isWhiteSpace_def question_def)
qed

subsection \<open>Clearing the transcript\<close>

text \<open>
  C5. \<open>clearChat\<close> issues the delete request for the session id of the last render and
  changes nothing else. When the request is answered with a status from 200 to 299, the
  transcript is emptied, the placeholder and the error are set to null and the session
  list is fetched again. When the request is aborted by its timer, fails on the network
  or is answered with another status, the error message is set and everything else, the
  transcript among it, stays as it was.
\<close>

theorem clear_chat_outcomes:
  "inflight (clearChat st) = inflight st @ [Delete_chat (rendered_sessionId st)] \<and>
   messages (clearChat st) = messages st \<and>
   (ok r \<longrightarrow>
      messages (clearChat_settled (Responded r) st) = [] \<and>
      streamedMessage (clearChat_settled (Responded r) st) = None \<and>
      error (clearChat_settled (Responded r) st) = None \<and>
      inflight (clearChat_settled (Responded r) st) = inflight st @ [Get_sessions]) \<and>
   (out = Aborted \<or> out = Network_failed \<or> (\<exists>r'. out = Responded r' \<and> \<not> ok r') \<longrightarrow>
      clearChat_settled out st =
        st\<lparr> error := Some ''Failed to clear chat history. Please try again.'' \<rparr> \<and>
      messages (clearChat_settled out st) = messages st)"
  by (auto simp: clearChat_def clearChat_settled_def fetchWithTimeout_def fetchSessions_def)

theorem clear_chat_outcomes_witness:
  "ok \<lparr> resp_status = 204, resp_body = None :: unit option \<rparr> \<and>
   messages chatting_A = [reply_A] \<and>
   messages (clearChat_settled (Responded \<lparr> resp_status = 204, resp_body = None \<rparr>)
       chatting_A) = [] \<and>
   inflight (clearChat_settled (Responded \<lparr> resp_status = 204, resp_body = None \<rparr>)
       chatting_A) = [Get_sessions, Get_sessions] \<and>
   \<not> ok \<lparr> resp_status = 500, resp_body = None :: unit option \<rparr> \<and>
   messages (clearChat_settled (refused 500) chatting_A) = [reply_A] \<and>
   error (clearChat_settled (refused 500) chatting_A) =
     Some ''Failed to clear chat history. Please try again.'' \<and>
   messages (clearChat_settled Aborted chatting_A) = [reply_A]"
  using clear_chat_outcomes [of chatting_A "\<lparr> resp_status = 204, resp_body = None \<rparr>"
      "refused 500"]
    clear_chat_outcomes [of chatting_A "\<lparr> resp_status = 204, resp_body = None \<rparr>" Aborted]
  by (simp add: chatting_A_eq ok_def refused_def)

subsection \<open>A history that arrives late\<close>

text \<open>
  C2, as the claim states it, fails. The component mounts with session A and asks for the
  history of A; before the answer comes the user switches to session B, whose history
  arrives and is shown. The request for A is still in flight. When its answer comes, the
  active session is still B and the transcript is the history of A.
\<close>

theorem stale_history_overwrites_counterexample:
  "sessionId overtaken = ''B'' \<and>
   messages overtaken = [reply_B] \<and>
   Get_chat ''A'' False \<in> set (inflight overtaken) \<and>
   sessionId (step (History_settled ''A'' False (answered (Some [reply_A]))) overtaken) =
     ''B'' \<and>
   messages (step (History_settled ''A'' False (answered (Some [reply_A]))) overtaken) =
     [reply_A]"
  by (simp add: overtaken_eq settled_defs answered_def Let_def)

text \<open>
  C2, amended. A history request that is in flight is neither cancelled nor discarded by
  a later switch of session: whenever it is answered with a status from 200 to 299 and a
  readable body, the messages of the answer replace the transcript and the active session
  id stays what it is, whether or not it is the id the request was made for.
\<close>

theorem history_result_applied_regardless:
  assumes "Get_chat sid awaited \<in> set (inflight st)" and "ok r" and "resp_body r = Some data"
  shows "messages (step (History_settled sid awaited (Responded r)) st) = or_empty data \<and>
         sessionId (step (History_settled sid awaited (Responded r)) st) = sessionId st"
  using assms
  by (simp add: settle_def fetchChatHistory_settled_def fetchWithTimeout_def json_def
      switchSession_resumed_def Let_def)

theorem history_result_applied_regardless_witness:
  "Get_chat ''A'' False \<in> set (inflight (switchSession ''B'' mounted_A)) \<and>
   ok \<lparr> resp_status = 200, resp_body = Some (Some [reply_A]) \<rparr> \<and>
   sessionId (switchSession ''B'' mounted_A) = ''B'' \<and>
   messages (step (History_settled ''A'' False
       (Responded \<lparr> resp_status = 200, resp_body = Some (Some [reply_A]) \<rparr>))
       (switchSession ''B'' mounted_A)) = [reply_A] \<and>
   sessionId (step (History_settled ''A'' False
       (Responded \<lparr> resp_status = 200, resp_body = Some (Some [reply_A]) \<rparr>))
       (switchSession ''B'' mounted_A)) = ''B''"
proof -
  have h1: "Get_chat ''A'' False \<in> set (inflight (switchSession ''B'' mounted_A))"
    by (simp add: mounted_A_eq operation_defs Let_def)
  have h2: "ok \<lparr> resp_status = 200, resp_body = Some (Some [reply_A]) \<rparr>"
    by (simp add: ok_def)
  have h3: "resp_body \<lparr> resp_status = 200, resp_body = Some (Some [reply_A]) \<rparr> =
              Some (Some [reply_A])"
    by simp
  have sid: "sessionId (switchSession ''B'' mounted_A) = ''B''"
    by (simp add: mounted_A_eq operation_defs Let_def)
  show ?thesis
    using history_result_applied_regardless [OF h1 h2 h3] h1 h2 sid
    by (simp add: or_empty_def)
qed

subsection \<open>Resolving the session id at start\<close>

text \<open>
  C9, as the claim states it, fails when the stored id is the empty string. The server
  may assign the empty string, and the listener stores it; at the next start the mount
  effect finds it, takes it for nothing, and mints and stores a fresh id.
\<close>

theorem empty_stored_id_replaced_counterexample:
  "localStorage (on_session [] mounted_A) = Some [] \<and>
   sessionId (mount ''fresh'' (initial_state (Some []))) = ''fresh'' \<and>
   sessionId (mount ''fresh'' (initial_state (Some []))) \<noteq> [] \<and>
   localStorage (mount ''fresh'' (initial_state (Some []))) = Some ''fresh''"
  by (simp add: on_session_def initial_state_def operation_defs Let_def)

text \<open>
  C9, amended. At start, a stored session id that is not the empty string is used as it
  is, and the storage is left alone. When nothing is stored, or the empty string is, the
  fresh id is used and written to the storage. In both cases the socket is opened with
  the resolved id in its query and the listeners on it, and the history of that id and the
  session list are requested.
\<close>

theorem mount_resolves_identity:
  "(stored = Some s \<and> s \<noteq> [] \<longrightarrow>
      sessionId (mount uuid (initial_state stored)) = s \<and>
      localStorage (mount uuid (initial_state stored)) = Some s) \<and>
   (stored = None \<or> stored = Some [] \<longrightarrow>
      sessionId (mount uuid (initial_state stored)) = uuid \<and>
      localStorage (mount uuid (initial_state stored)) = Some uuid) \<and>
   socketRef (mount uuid (initial_state stored)) =
     Some \<lparr> query_sessionId = sessionId (mount uuid (initial_state stored)),
            listening = True \<rparr> \<and>
   transport (mount uuid (initial_state stored)) =
     [Io (sessionId (mount uuid (initial_state stored)))] \<and>
   inflight (mount uuid (initial_state stored)) =
     [Get_chat (sessionId (mount uuid (initial_state stored))) False, Get_sessions]"
  by (auto simp: mount_def initial_state_def fetchSessions_def fetchChatHistory_def Let_def
      split: option.splits)

theorem mount_resolves_identity_witness:
  "''kept'' \<noteq> [] \<and>
   sessionId (mount ''fresh'' (initial_state (Some ''kept''))) = ''kept'' \<and>
   localStorage (mount ''fresh'' (initial_state (Some ''kept''))) = Some ''kept'' \<and>
   transport (mount ''fresh'' (initial_state (Some ''kept''))) = [Io ''kept''] \<and>
   inflight (mount ''fresh'' (initial_state (Some ''kept''))) =
     [Get_chat ''kept'' False, Get_sessions] \<and>
   sessionId (mount ''fresh'' (initial_state None)) = ''fresh'' \<and>
   localStorage (mount ''fresh'' (initial_state None)) = Some ''fresh'' \<and>
   transport (mount ''fresh'' (initial_state None)) = [Io ''fresh''] \<and>
   inflight (mount ''fresh'' (initial_state None)) =
     [Get_chat ''fresh'' False, Get_sessions]"
  using mount_resolves_identity [of "Some ''kept''" "''kept''" "''fresh''"]
    mount_resolves_identity [of None "''kept''" "''fresh''"]
  by simp

subsection \<open>Socket events after the socket has been replaced\<close>

text \<open>
  C1. On the socket of the mount effect a final message flagged complete clears the
  placeholder, is appended to the transcript and makes the session list be fetched again.
  After \<open>switchSession\<close> the same message arrives on a socket without listeners: it
  is not appended, the placeholder stays, and no session list is requested, against what
  the claim says of every incoming final message.
\<close>

theorem final_message_lost_after_switch:
  "messages (run [Message_delta partial_reply, Message_final reply_B] mounted_A) =
     [reply_B] \<and>
   streamedMessage (run [Message_delta partial_reply, Message_final reply_B] mounted_A) =
     None \<and>
   inflight (run [Message_delta partial_reply, Message_final reply_B] mounted_A) =
     [Get_chat ''A'' False, Get_sessions, Get_sessions] \<and>
   messages (run [Message_delta partial_reply, Switch_session ''B'', Message_final reply_B]
       mounted_A) = [] \<and>
   streamedMessage (run [Message_delta partial_reply, Switch_session ''B'',
       Message_final reply_B] mounted_A) = Some partial_reply \<and>
   inflight (run [Message_delta partial_reply, Switch_session ''B'', Message_final reply_B]
       mounted_A) = [Get_chat ''A'' False, Get_sessions, Get_chat ''B'' True]"
  by (simp add: run_def mounted_A_eq heard_def listener_defs operation_defs sample_defs
      Let_def)

text \<open>
  C3. On the socket of the mount effect each streamed message becomes the placeholder.
  After \<open>switchSession\<close> the streamed messages arrive on a socket without listeners:
  the placeholder stays null and is not the most recent of them, against what the claim
  says of every sequence of received deltas.
\<close>

theorem deltas_lost_after_switch:
  "streamedMessage (run [Message_delta partial_reply, Message_delta reply_B] mounted_A) =
     Some reply_B \<and>
   messages (run [Message_delta partial_reply, Message_delta reply_B] mounted_A) = [] \<and>
   streamedMessage (run [Switch_session ''B'', Message_delta partial_reply,
       Message_delta reply_B] mounted_A) = None"
  by (simp add: run_def mounted_A_eq heard_def listener_defs operation_defs sample_defs
      Let_def)

text \<open>
  C7. On the socket of the mount effect an assigned session id becomes the active id and
  is stored. A submission made before the next render still emits the id of the last
  render; after that render it emits the assigned id. After \<open>switchSession\<close> the
  assignment arrives on a socket without listeners: the active id and the stored id stay
  those of the switch, and a later submission emits the id of the switch, against what
  the claim says.
\<close>

theorem assigned_session_lost_after_switch:
  "sessionId (run [Session_assigned ''S''] mounted_A) = ''S'' \<and>
   localStorage (run [Session_assigned ''S''] mounted_A) = Some ''S'' \<and>
   transport (run [Session_assigned ''S'', Send_message ''hi'' ''t0''] mounted_A) =
     [Io ''A'', Emit_message ''hi'' ''A''] \<and>
   transport (run [Session_assigned ''S'', Render, Send_message ''hi'' ''t0''] mounted_A) =
     [Io ''A'', Emit_message ''hi'' ''S''] \<and>
   sessionId (run [Switch_session ''B'', Render, Session_assigned ''S''] mounted_A) =
     ''B'' \<and>
   localStorage (run [Switch_session ''B'', Render, Session_assigned ''S''] mounted_A) =
     Some ''B'' \<and>
   transport (run [Switch_session ''B'', Render, Session_assigned ''S'', Render,
       Send_message ''hi'' ''t0''] mounted_A) =
     [Io ''A'', Disconnect_call, Io ''B'', Emit_message ''hi'' ''B'']"
  by (simp add: run_def mounted_A_eq heard_def listener_defs operation_defs sample_defs
      trim_hi Let_def)

text \<open>
  C10. On the socket of the mount effect a channel error sets the error message, sets the
  status to idle and clears the loading flag. After \<open>switchSession\<close> the error arrives
  on a socket without listeners: no error message is set, the status stays and the
  loading flag stays set, against what the claim says of every channel error received.
\<close>

theorem channel_error_lost_after_switch:
  "error (run [Send_message ''hi'' ''t0'', Activity_status typing, Channel_error]
       mounted_A) =
     Some ''An error occurred with the chat connection. Please try again later.'' \<and>
   status (run [Send_message ''hi'' ''t0'', Activity_status typing, Channel_error]
       mounted_A) = \<lparr> status_type = Idle, status_message = None \<rparr> \<and>
   isLoading (run [Send_message ''hi'' ''t0'', Activity_status typing, Channel_error]
       mounted_A) = False \<and>
   error (run [Send_message ''hi'' ''t0'', Activity_status typing, Switch_session ''B'',
       Channel_error] mounted_A) = None \<and>
   status (run [Send_message ''hi'' ''t0'', Activity_status typing, Switch_session ''B'',
       Channel_error] mounted_A) = typing \<and>
   isLoading (run [Send_message ''hi'' ''t0'', Activity_status typing, Switch_session ''B'',
       Channel_error] mounted_A) = True"
  by (simp add: run_def mounted_A_eq heard_def listener_defs operation_defs sample_defs
      trim_hi Let_def)

subsection \<open>Requests that fail\<close>

text \<open>The failures, one kind at a time: each leaves the error message of its function;
  the session list becomes empty, the transcript stays.\<close>

lemma failed_load_outcomes:
  "out = Aborted \<or> out = Network_failed \<or>
   (\<exists>r. out = Responded r \<and>
      (resp_status r < 200 \<or> 299 < resp_status r \<or> resp_body r = None)) \<Longrightarrow>
   sessions (fetchSessions_settled out st) = [] \<and>
   error (fetchSessions_settled out st) = Some ''No chat sessions available.''"
  "out' = Aborted \<or> out' = Network_failed \<or>
   (\<exists>r. out' = Responded r \<and>
      (resp_status r < 200 \<or> 299 < resp_status r \<or> resp_body r = None)) \<Longrightarrow>
   messages (fetchChatHistory_settled out' st) = messages st \<and>
   error (fetchChatHistory_settled out' st) =
     Some ''Unable to load chat history. Please try again later.''"
  by (auto simp: settled_defs Let_def)

text \<open>
  C8. A session list that fails to load falls back to the empty list and sets the error
  message. A transcript that fails to load sets the error message and falls back to
  nothing: session A shows its history, the user switches to B, the request for the
  history of B is aborted by its timer, and the transcript under the active session B is
  still the history of A, against the empty result that the claim says.
\<close>

theorem failed_history_keeps_transcript:
  "sessions (run [Sessions_settled (answered (Some [session_A])), Message_final reply_B]
       chatting_A) = [session_A] \<and>
   sessions (run [Sessions_settled (answered (Some [session_A])), Message_final reply_B,
       Sessions_settled Aborted] chatting_A) = [] \<and>
   error (run [Sessions_settled (answered (Some [session_A])), Message_final reply_B,
       Sessions_settled Aborted] chatting_A) = Some ''No chat sessions available.'' \<and>
   messages (run [Switch_session ''B'', History_settled ''B'' True Aborted] chatting_A) =
     [reply_A] \<and>
   sessionId (run [Switch_session ''B'', History_settled ''B'' True Aborted] chatting_A) =
     ''B'' \<and>
   error (run [Switch_session ''B'', History_settled ''B'' True Aborted] chatting_A) =
     Some ''Unable to load chat history. Please try again later.''"
  by (simp add: run_def chatting_A_eq heard_def listener_defs settled_defs operation_defs
      answered_def reply_B_def Let_def)

subsection \<open>Invariants of the transcript\<close>




end
